theory Spec2Isabelle
  imports Complex_Main "HOL-Library.Word"
begin

unbundle bit_operations_syntax

section \<open>The ESC/POS network printer client\<close>

text \<open>
  A shallow embedding of the class \<open>NetworkPrinter\<close> of \<open>network-escpos/__init__.py\<close>.
  The printer object is a record; each method is a function from the object to an
  outcome (the exception raised, if any) and the object afterwards. The socket is
  modelled by what it carries: the messages handed to \<open>sendall\<close>, oldest first, and the
  bytes waiting to be received. Sending and receiving themselves never fail here: the
  transport is outside the program text that is modelled.
\<close>

subsection \<open>Python values and exceptions\<close>

type_synonym byte = "8 word"
type_synonym bytes = "byte list"

datatype pyerror =
    KeyError | TypeError | ValueError | StructError | UnicodeEncodeError | LookupError
  | OverflowError

text \<open>
  The arguments \<open>width\<close> and \<open>height\<close> of \<open>set\<close> are tested with \<open>isinstance\<close>, so
  their dynamic type matters. A float is a rational or one of the three special values;
  comparing an int with a float is exact in Python.
\<close>

datatype pyfloat = Finite rat | PosInf | NegInf | NaN

datatype pyval = PyInt int | PyBool bool | PyFloat pyfloat | PyStr string | PyNone

fun int_le_float :: "int \<Rightarrow> pyfloat \<Rightarrow> bool" where
  "int_le_float n (Finite q) = (of_int n \<le> q)"
| "int_le_float n PosInf = True"
| "int_le_float n NegInf = False"
| "int_le_float n NaN = False"

fun float_le_int :: "pyfloat \<Rightarrow> int \<Rightarrow> bool" where
  "float_le_int (Finite q) n = (q \<le> of_int n)"
| "float_le_int PosInf n = False"
| "float_le_int NegInf n = True"
| "float_le_int NaN n = False"

text \<open>\<open>n <= v\<close> and \<open>v <= n\<close> for an int literal \<open>n\<close>: a str or None raises TypeError.\<close>

fun int_le_val :: "int \<Rightarrow> pyval \<Rightarrow> pyerror + bool" where
  "int_le_val n (PyInt m) = Inr (n \<le> m)"
| "int_le_val n (PyBool b) = Inr (n \<le> (if b then 1 else 0))"
| "int_le_val n (PyFloat f) = Inr (int_le_float n f)"
| "int_le_val n (PyStr s) = Inl TypeError"
| "int_le_val n PyNone = Inl TypeError"

fun val_le_int :: "pyval \<Rightarrow> int \<Rightarrow> pyerror + bool" where
  "val_le_int (PyInt m) n = Inr (m \<le> n)"
| "val_le_int (PyBool b) n = Inr ((if b then 1 else 0) \<le> n)"
| "val_le_int (PyFloat f) n = Inr (float_le_int f n)"
| "val_le_int (PyStr s) n = Inl TypeError"
| "val_le_int PyNone n = Inl TypeError"

text \<open>The chained comparison \<open>lo <= v <= hi\<close>: the second test runs only if the first holds.\<close>

definition between :: "int \<Rightarrow> pyval \<Rightarrow> int \<Rightarrow> pyerror + bool" where
  "between lo v hi =
     (case int_le_val lo v of
        Inl e \<Rightarrow> Inl e
      | Inr False \<Rightarrow> Inr False
      | Inr True \<Rightarrow> val_le_int v hi)"

text \<open>\<open>isinstance(v, int)\<close>: bool is a subclass of int.\<close>

fun isinstance_int :: "pyval \<Rightarrow> bool" where
  "isinstance_int (PyInt m) = True"
| "isinstance_int (PyBool b) = True"
| "isinstance_int v = False"

text \<open>The dictionary key an int or bool stands for (\<open>True\<close> and \<open>1\<close> are the same key).\<close>

fun int_key :: "pyval \<Rightarrow> int option" where
  "int_key (PyInt m) = Some m"
| "int_key (PyBool b) = Some (if b then 1 else 0)"
| "int_key v = None"

text \<open>\<open>a and b\<close> on conditions that may raise: \<open>b\<close> is evaluated only when \<open>a\<close> is true.\<close>

definition and_then :: "pyerror + bool \<Rightarrow> pyerror + bool \<Rightarrow> pyerror + bool" where
  "and_then a b = (case a of Inl e \<Rightarrow> Inl e | Inr False \<Rightarrow> Inr False | Inr True \<Rightarrow> b)"

text \<open>\<open>six.int2byte\<close> packs one unsigned byte and raises \<open>struct.error\<close> out of range.\<close>

definition int2byte :: "int \<Rightarrow> pyerror + bytes" where
  "int2byte n = (if 0 \<le> n \<and> n \<le> 255 then Inr [word_of_int n] else Inl StructError)"

subsection \<open>Strings\<close>

text \<open>
  Text is a list of characters with codes below 256. \<open>str.upper\<close> is modelled on the
  ASCII letters; other characters are left as they are.
\<close>

definition upper_char :: "char \<Rightarrow> char" where
  "upper_char ch =
     (if 97 \<le> (of_char ch :: nat) \<and> (of_char ch :: nat) \<le> 122
      then char_of ((of_char ch :: nat) - 32) else ch)"

definition lower_char :: "char \<Rightarrow> char" where
  "lower_char ch =
     (if 65 \<le> (of_char ch :: nat) \<and> (of_char ch :: nat) \<le> 90
      then char_of ((of_char ch :: nat) + 32) else ch)"

definition upper :: "string \<Rightarrow> string" where
  "upper s = map upper_char s"

text \<open>
  Two strings are equal up to the case of their letters: the reading of
  "case-insensitively equals" that the behaviour of \<open>cut\<close> is compared with.
\<close>

definition case_insensitive_eq :: "string \<Rightarrow> string \<Rightarrow> bool" where
  "case_insensitive_eq s t = (map lower_char s = map lower_char t)"

definition newline :: char where
  "newline = CHR 0x0A"

definition LF :: byte where
  "LF = 0x0A"

subsection \<open>The constants of the module \<open>commands\<close>\<close>

text \<open>
  The module \<open>commands\<close> that \<open>__init__.py\<close> imports its constants from is not among the
  sources. Its constants are parameters of the model: every operation takes the record
  below. A dictionary is a map, and a key that is missing raises KeyError.
\<close>

record commands =
  PAPER_FULL_CUT :: bytes
  PAPER_PART_CUT :: bytes
  RT_STATUS_ONLINE :: bytes
  RT_MASK_ONLINE :: int
  RT_STATUS_PAPER :: bytes
  RT_MASK_PAPER :: int
  RT_MASK_LOWPAPER :: int
  RT_MASK_NOPAPER :: int
  SET_FONT :: "bytes \<Rightarrow> bytes"
  TXT_SIZE :: bytes
  TXT_NORMAL :: bytes
  style_size :: "string \<rightharpoonup> bytes"
  style_width :: "int \<rightharpoonup> int"
  style_height :: "int \<rightharpoonup> int"
  style_flip :: "bool \<rightharpoonup> bytes"
  style_smooth :: "bool \<rightharpoonup> bytes"
  style_bold :: "bool \<rightharpoonup> bytes"
  style_underline :: "int \<rightharpoonup> bytes"
  style_align :: "string \<rightharpoonup> bytes"
  style_density :: "int \<rightharpoonup> bytes"
  style_invert :: "bool \<rightharpoonup> bytes"

subsection \<open>The printer object\<close>

record printer =
  host :: string
  port :: int
  timeout :: int
  autoclose :: bool
  codepage :: string
  sent :: "bytes list"
  inbox :: bytes

type_synonym action = "printer \<Rightarrow> pyerror option \<times> printer"

text \<open>\<open>_raw\<close>: one call of \<open>sendall\<close>.\<close>

definition raw :: "bytes \<Rightarrow> action" where
  "raw msg p = (None, p\<lparr>sent := sent p @ [msg]\<rparr>)"

text \<open>\<open>_read\<close>: \<open>recv(16)\<close> takes at most 16 of the waiting bytes.\<close>

definition read :: "printer \<Rightarrow> bytes \<times> printer" where
  "read p = (take 16 (inbox p), p\<lparr>inbox := drop 16 (inbox p)\<rparr>)"

text \<open>One statement after another: an exception ends the sequence.\<close>

definition then_do :: "action \<Rightarrow> action \<Rightarrow> action" where
  "then_do f g p = (case f p of (None, p') \<Rightarrow> g p' | (Some e, p') \<Rightarrow> (Some e, p'))"

text \<open>\<open>self._raw(table[key])\<close>: the lookup comes first, and raises KeyError on a missing key.\<close>

definition raw_lookup :: "('k \<rightharpoonup> bytes) \<Rightarrow> 'k \<Rightarrow> action" where
  "raw_lookup tab k p = (case tab k of None \<Rightarrow> (Some KeyError, p) | Some msg \<Rightarrow> raw msg p)"

definition skip :: action where
  "skip p = (None, p)"

definition raise :: "pyerror \<Rightarrow> action" where
  "raise e p = (Some e, p)"

subsection \<open>\<open>set\<close>\<close>

record set_args =
  align :: string
  font :: string
  bold :: bool
  underline :: int
  width :: pyval
  height :: pyval
  density :: int
  invert :: bool
  smooth :: bool
  flip :: bool
  double_width :: bool
  double_height :: bool
  custom_size :: bool

text \<open>The defaults of the keyword arguments.\<close>

definition set_defaults :: set_args where
  "set_defaults =
     \<lparr>align = ''left'', font = ''a'', bold = False, underline = 0, width = PyInt 1,
      height = PyInt 1, density = 9, invert = False, smooth = False, flip = False,
      double_width = False, double_height = False, custom_size = False\<rparr>"

text \<open>The condition of the inner \<open>if\<close> of the custom-size branch.\<close>

definition size_guard :: "pyval \<Rightarrow> pyval \<Rightarrow> pyerror + bool" where
  "size_guard w h =
     and_then (between 1 w 8)
       (and_then (between 1 h 8)
          (and_then (Inr (isinstance_int w)) (Inr (isinstance_int h))))"

text \<open>The body of that \<open>if\<close>: two lookups, the sum, \<open>int2byte\<close>, one message.\<close>

definition custom_size_command :: "commands \<Rightarrow> pyval \<Rightarrow> pyval \<Rightarrow> action" where
  "custom_size_command c w h =
     (case Option.bind (int_key w) (style_width c) of
        None \<Rightarrow> raise KeyError
      | Some tw \<Rightarrow>
          (case Option.bind (int_key h) (style_height c) of
             None \<Rightarrow> raise KeyError
           | Some th \<Rightarrow>
               (case int2byte (tw + th) of
                  Inl e \<Rightarrow> raise e
                | Inr b \<Rightarrow> raw (TXT_SIZE c @ b))))"

text \<open>The size block: lines 117 to 135.\<close>

definition set_size :: "commands \<Rightarrow> set_args \<Rightarrow> action" where
  "set_size c a =
     (if custom_size a then
        (case size_guard (width a) (height a) of
           Inl e \<Rightarrow> raise e
         | Inr True \<Rightarrow> custom_size_command c (width a) (height a)
         | Inr False \<Rightarrow> skip)
      else
        then_do (raw (TXT_NORMAL c))
          (if double_width a \<and> double_height a then raw_lookup (style_size c) ''2x''
           else if double_width a then raw_lookup (style_size c) ''2w''
           else if double_height a then raw_lookup (style_size c) ''2h''
           else raw_lookup (style_size c) ''normal''))"

text \<open>\<open>self._raw(SET_FONT(six.int2byte(1)))\<close>.\<close>

definition set_font_one :: "commands \<Rightarrow> action" where
  "set_font_one c = (case int2byte 1 of Inl e \<Rightarrow> raise e | Inr b \<Rightarrow> raw (SET_FONT c b))"

text \<open>The rest of \<open>set\<close>: lines 137 to 147.\<close>

definition set_style :: "commands \<Rightarrow> set_args \<Rightarrow> action" where
  "set_style c a =
     then_do (raw_lookup (style_flip c) (flip a))
    (then_do (raw_lookup (style_smooth c) (smooth a))
    (then_do (raw_lookup (style_bold c) (bold a))
    (then_do (raw_lookup (style_underline c) (underline a))
    (then_do (set_font_one c)
    (then_do (raw_lookup (style_align c) (align a))
    (then_do (if density a \<noteq> 9 then raw_lookup (style_density c) (density a) else skip)
             (raw_lookup (style_invert c) (invert a))))))))"

definition set_op :: "commands \<Rightarrow> set_args \<Rightarrow> action" where
  "set_op c a = then_do (set_size c a) (set_style c a)"

subsection \<open>\<open>text\<close>, \<open>text_ln\<close>, \<open>ln\<close> and \<open>cut\<close>\<close>

text \<open>
  \<open>str.encode\<close> belongs to the Python library: the codec is a parameter, a function
  from the name of the code page and the text to the bytes or to the exception.
\<close>

type_synonym codec = "string \<Rightarrow> string \<Rightarrow> pyerror + bytes"

definition text_op :: "codec \<Rightarrow> string \<Rightarrow> action" where
  "text_op enc txt p = (case enc (codepage p) txt of Inl e \<Rightarrow> raise e p | Inr b \<Rightarrow> raw b p)"

text \<open>\<open>"{}\n".format(txt)\<close> for a str \<open>txt\<close>.\<close>

definition format_line :: "string \<Rightarrow> string" where
  "format_line txt = txt @ [newline]"

definition text_ln :: "codec \<Rightarrow> string \<Rightarrow> action" where
  "text_ln enc txt = text_op enc (format_line txt)"




definition cut_op :: "commands \<Rightarrow> string \<Rightarrow> action" where
  "cut_op c mode =
     then_do (raw [LF, LF, LF, LF, LF, LF])
       (if upper mode = ''PART'' then raw (PAPER_PART_CUT c) else raw (PAPER_FULL_CUT c))"

subsection \<open>Status queries\<close>

definition query_status :: "bytes \<Rightarrow> printer \<Rightarrow> bytes \<times> printer" where
  "query_status mode p = read (snd (raw mode p))"

text \<open>\<open>status[0]\<close> of a bytes object is an int from 0 to 255; \<open>not n\<close> is \<open>n = 0\<close>.\<close>

definition is_online :: "commands \<Rightarrow> printer \<Rightarrow> bool \<times> printer" where
  "is_online c p =
     (case query_status (RT_STATUS_ONLINE c) p of
        (status, p') \<Rightarrow>
          (if length status = 0 then (False, p')
           else (\<not> ((uint (status ! 0) AND RT_MASK_ONLINE c) \<noteq> 0), p')))"

text \<open>A function that falls off its end returns Python's \<open>None\<close>: the result is an option.\<close>

definition paper_status :: "commands \<Rightarrow> printer \<Rightarrow> int option \<times> printer" where
  "paper_status c p =
     (case query_status (RT_STATUS_PAPER c) p of
        (status, p') \<Rightarrow>
          (if length status = 0 then (Some 2, p')
           else if uint (status ! 0) AND RT_MASK_NOPAPER c = RT_MASK_NOPAPER c then (Some 0, p')
           else if uint (status ! 0) AND RT_MASK_LOWPAPER c = RT_MASK_LOWPAPER c then (Some 1, p')
           else if uint (status ! 0) AND RT_MASK_PAPER c = RT_MASK_PAPER c then (Some 2, p')
           else (None, p')))"

subsection \<open>Concrete constants, a codec and a printer\<close>

text \<open>
  Modelled from the spec: the dictionary \<open>TXT_STYLE["width"]\<close> of the module
  \<open>commands\<close>, which is not among the sources. The multipliers 1 to 8 are the keys, the
  width occupies the high nibble of the size byte, and 1 stands for 0, 8 for 7.
\<close>

definition TXT_STYLE_width :: "int \<rightharpoonup> int" where
  "TXT_STYLE_width w = (if 1 \<le> w \<and> w \<le> 8 then Some (16 * (w - 1)) else None)"

text \<open>
  Modelled from the spec: the dictionary \<open>TXT_STYLE["height"]\<close> of the module
  \<open>commands\<close>, which is not among the sources. The multipliers 1 to 8 are the keys, the
  height occupies the low nibble of the size byte, and 1 stands for 0, 8 for 7.
\<close>

definition TXT_STYLE_height :: "int \<rightharpoonup> int" where
  "TXT_STYLE_height h = (if 1 \<le> h \<and> h \<le> 8 then Some (h - 1) else None)"

definition ESC :: byte where
  "ESC = 0x1B"

definition GS :: byte where
  "GS = 0x1D"

definition DLE :: byte where
  "DLE = 0x10"

definition EOT :: byte where
  "EOT = 0x04"

text \<open>A dictionary with the keys \<open>False\<close> and \<open>True\<close>.\<close>

definition on_off :: "bytes \<Rightarrow> bytes \<Rightarrow> bool \<rightharpoonup> bytes" where
  "on_off off on b = Some (if b then on else off)"

text \<open>
  Modelled from the spec: the constants of the module \<open>commands\<close>, which is not among
  the sources, as the standard ESC/POS command set has them: the keys of the tables are
  those of the spec's data model (alignment left, center and right, underline 0 to 2,
  density 0 to 8, on and off for the switches), and the three paper masks and the online
  mask are those of the real-time status bytes.
\<close>

definition escpos :: commands where
  "escpos =
     \<lparr>PAPER_FULL_CUT = [GS, 0x56, 0x00],
      PAPER_PART_CUT = [GS, 0x56, 0x01],
      RT_STATUS_ONLINE = [DLE, EOT, 0x01],
      RT_MASK_ONLINE = 8,
      RT_STATUS_PAPER = [DLE, EOT, 0x04],
      RT_MASK_PAPER = 18,
      RT_MASK_LOWPAPER = 30,
      RT_MASK_NOPAPER = 114,
      SET_FONT = (\<lambda>n. [ESC, 0x4D] @ n),
      TXT_SIZE = [GS, 0x21],
      TXT_NORMAL = [ESC, 0x21, 0x00],
      style_size =
        [''normal'' \<mapsto> [ESC, 0x21, 0x00, ESC, 0x21, 0x00],
         ''2h'' \<mapsto> [ESC, 0x21, 0x00, ESC, 0x21, 0x10],
         ''2w'' \<mapsto> [ESC, 0x21, 0x00, ESC, 0x21, 0x20],
         ''2x'' \<mapsto> [ESC, 0x21, 0x00, ESC, 0x21, 0x30]],
      style_width = TXT_STYLE_width,
      style_height = TXT_STYLE_height,
      style_flip = on_off [ESC, 0x7B, 0x00] [ESC, 0x7B, 0x01],
      style_smooth = on_off [GS, 0x62, 0x00] [GS, 0x62, 0x01],
      style_bold = on_off [ESC, 0x45, 0x00] [ESC, 0x45, 0x01],
      style_underline =
        [0 \<mapsto> [ESC, 0x2D, 0x00], 1 \<mapsto> [ESC, 0x2D, 0x01], 2 \<mapsto> [ESC, 0x2D, 0x02]],
      style_align =
        [''left'' \<mapsto> [ESC, 0x61, 0x00], ''center'' \<mapsto> [ESC, 0x61, 0x01],
         ''right'' \<mapsto> [ESC, 0x61, 0x02]],
      style_density =
        (\<lambda>d. if 0 \<le> d \<and> d \<le> 8 then Some [GS, 0x7C, word_of_int d] else None),
      style_invert = on_off [GS, 0x42, 0x00] [GS, 0x42, 0x01]\<rparr>"

text \<open>
  Python's codec \<open>ascii\<close>: a character below 128 is its own byte, any other raises
  UnicodeEncodeError. A codec name other than \<open>ascii\<close> is unknown to this registry.
\<close>

definition ascii_encode :: "string \<Rightarrow> pyerror + bytes" where
  "ascii_encode txt =
     (if list_all (\<lambda>ch. (of_char ch :: nat) < 128) txt
      then Inr (map of_char txt) else Inl UnicodeEncodeError)"

definition ascii_only :: codec where
  "ascii_only cp txt = (if cp = ''ascii'' then ascii_encode txt else Inl LookupError)"

definition demo_printer :: printer where
  "demo_printer =
     \<lparr>host = ''192.168.0.100'', port = 9100, timeout = 5, autoclose = True,
      codepage = ''ascii'', sent = [], inbox = []\<rparr>"

subsection \<open>Predicates used in the statements and proofs\<close>

text \<open>A number: an int, a bool or a float.\<close>

definition is_number :: "pyval \<Rightarrow> bool" where
  "is_number v =
     (case v of PyInt m \<Rightarrow> True | PyBool b \<Rightarrow> True | PyFloat f \<Rightarrow> True
      | PyStr s \<Rightarrow> False | PyNone \<Rightarrow> False)"

text \<open>An integer from 1 to 8, the range of the size multipliers.\<close>

definition valid_multiplier :: "pyval \<Rightarrow> bool" where
  "valid_multiplier v = (case int_key v of Some n \<Rightarrow> 1 \<le> n \<and> n \<le> 8 | None \<Rightarrow> False)"

text \<open>An action only ever appends to what was sent.\<close>

definition appends :: "action \<Rightarrow> bool" where
  "appends f = (\<forall>p. \<exists>rest. sent (snd (f p)) = sent p @ rest)"

text \<open>
  The commands of lines 137 to 147 in the order the claim gives them: flip, smoothing,
  bold, underline, font-select for font index 1, alignment, density when it is not 9,
  invert. Each is the entry of its table for the argument, \<open>None\<close> where the table has no
  such key.
\<close>

definition claimed_order :: "commands \<Rightarrow> set_args \<Rightarrow> bytes option list" where
  "claimed_order c a =
     [style_flip c (flip a), style_smooth c (smooth a), style_bold c (bold a),
      style_underline c (underline a), Some (SET_FONT c [1]), style_align c (align a)] @
     (if density a \<noteq> 9 then [style_density c (density a)] else []) @
     [style_invert c (invert a)]"

text \<open>Sending table entries one after another: the first missing entry raises KeyError.\<close>

fun run_steps :: "bytes option list \<Rightarrow> action" where
  "run_steps [] p = (None, p)"
| "run_steps (None # ms) p = (Some KeyError, p)"
| "run_steps (Some m # ms) p = run_steps ms (p\<lparr>sent := sent p @ [m]\<rparr>)"

section \<open>Properties\<close>

subsection \<open>Sequencing\<close>

lemma then_do_raw: "then_do (raw m) g p = g (p\<lparr>sent := sent p @ [m]\<rparr>)"
  by (simp add: then_do_def raw_def)

lemma then_do_ok: "f p = (None, p1) \<Longrightarrow> then_do f g p = g p1"
  by (simp add: then_do_def)

lemma then_do_error: "f p = (Some e, p1) \<Longrightarrow> then_do f g p = (Some e, p1)"
  by (simp add: then_do_def)

lemma raw_lookup_Some: "tab k = Some m \<Longrightarrow> raw_lookup tab k p = (None, p\<lparr>sent := sent p @ [m]\<rparr>)"
  by (simp add: raw_lookup_def raw_def)

lemma raw_lookup_None: "tab k = None \<Longrightarrow> raw_lookup tab k p = (Some KeyError, p)"
  by (simp add: raw_lookup_def)

lemma set_font_one_eq: "set_font_one c p = (None, p\<lparr>sent := sent p @ [SET_FONT c [1]]\<rparr>)"
  by (simp add: set_font_one_def int2byte_def raw_def)

lemma appends_raw: "appends (raw m)"
  by (simp add: appends_def raw_def)

lemma appends_skip: "appends skip"
  by (simp add: appends_def skip_def)

lemma appends_raw_lookup: "appends (raw_lookup tab k)"
  by (cases "tab k") (simp_all add: appends_def raw_lookup_def raw_def)

lemma appends_set_font_one: "appends (set_font_one c)"
  by (simp add: appends_def set_font_one_eq)

lemma appends_then_do:
  assumes "appends f" and "appends g"
  shows "appends (then_do f g)"
  unfolding appends_def
proof
  fix p
  obtain e p1 where fp: "f p = (e, p1)" by (cases "f p")
  from assms(1) fp obtain r1 where r1: "sent p1 = sent p @ r1"
    unfolding appends_def by (metis snd_conv)
  show "\<exists>rest. sent (snd (then_do f g p)) = sent p @ rest"
  proof (cases e)
    case None
    from assms(2) obtain r2 where "sent (snd (g p1)) = sent p1 @ r2"
      unfolding appends_def by blast
    with None fp r1 show ?thesis by (simp add: then_do_def)
  next
    case (Some err)
    with fp r1 show ?thesis by (simp add: then_do_def)
  qed
qed

lemma appends_set_style: "appends (set_style c a)"
  unfolding set_style_def
  by (intro appends_then_do appends_raw_lookup appends_set_font_one)
     (simp_all add: appends_raw_lookup appends_skip)

lemma set_op_after_size:
  assumes "set_size c a p = (None, p1)"
  shows "set_op c a p = set_style c a p1"
    and "\<exists>rest. sent (snd (set_op c a p)) = sent p1 @ rest"
proof -
  show eq: "set_op c a p = set_style c a p1"
    using assms by (simp add: set_op_def then_do_def)
  show "\<exists>rest. sent (snd (set_op c a p)) = sent p1 @ rest"
    using appends_set_style [of c a] unfolding eq appends_def by blast
qed

subsection \<open>Text and newlines\<close>

text \<open>
  Claim C9. For every string \<open>s\<close>, \<open>text_ln(s)\<close> does exactly what \<open>text\<close> does on
  \<open>s\<close> followed by a newline character: the same bytes are written, or the same
  exception of the codec is raised.
\<close>

theorem text_ln_same_as_text:
  "text_ln enc s p = text_op enc (s @ [newline]) p"
  by (simp add: text_ln_def format_line_def)

theorem text_ln_same_as_text_example:
  "text_ln ascii_only ''abc'' demo_printer = text_op ascii_only [CHR ''a'', CHR ''b'', CHR ''c'', CHR 0x0A] demo_printer
   \<and> text_ln ascii_only ''abc'' demo_printer = (None, demo_printer\<lparr>sent := [[0x61, 0x62, 0x63, 0x0A]]\<rparr>)"
  using text_ln_same_as_text [of ascii_only "''abc''" demo_printer]
  by (simp add: newline_def text_op_def ascii_only_def ascii_encode_def demo_printer_def raw_def)





subsection \<open>Cutting\<close>

lemma of_char_less_256: "(of_char ch :: nat) < 256"
proof -
  have "(of_char ch :: nat) mod 256 = of_char ch" by simp
  moreover have "(of_char ch :: nat) mod 256 < 256" by (rule mod_less_divisor) simp
  ultimately show ?thesis by simp
qed

lemma upper_char_code: "(of_char (upper_char ch) :: nat) = (if 97 \<le> (of_char ch :: nat) \<and> (of_char ch :: nat) \<le> 122 then of_char ch - 32 else of_char ch)"
  using of_char_less_256 [of ch] by (auto simp add: upper_char_def)

lemma lower_char_code: "(of_char (lower_char ch) :: nat) = (if 65 \<le> (of_char ch :: nat) \<and> (of_char ch :: nat) \<le> 90 then of_char ch + 32 else of_char ch)"
  using of_char_less_256 [of ch] by (auto simp add: lower_char_def)

lemma shift_case_eq:
  fixes n m :: nat
  shows "((if 97 \<le> n \<and> n \<le> 122 then n - 32 else n) =
          (if 97 \<le> m \<and> m \<le> 122 then m - 32 else m)) =
         ((if 65 \<le> n \<and> n \<le> 90 then n + 32 else n) =
          (if 65 \<le> m \<and> m \<le> 90 then m + 32 else m))"
  by (auto split: if_splits)

lemma upper_eq_iff_lower_eq: "(upper_char x = upper_char y) = (lower_char x = lower_char y)"
proof -
  have "(upper_char x = upper_char y) = ((of_char (upper_char x) :: nat) = of_char (upper_char y))"
    by simp
  also have "\<dots> = ((of_char (lower_char x) :: nat) = of_char (lower_char y))"
    unfolding upper_char_code lower_char_code by (rule shift_case_eq)
  also have "\<dots> = (lower_char x = lower_char y)"
    by simp
  finally show ?thesis .
qed

lemma map_eq_map_iff: "(map f xs = map g ys) = list_all2 (\<lambda>x y. f x = g y) xs ys"
proof -
  have "(map f xs = map g ys) = list_all2 (=) (map f xs) (map g ys)"
    by (simp add: list.rel_eq)
  then show ?thesis by (simp add: list.rel_map)
qed

lemma upper_eq_iff: "(upper s = upper t) = case_insensitive_eq s t"
  unfolding upper_def case_insensitive_eq_def map_eq_map_iff upper_eq_iff_lower_eq ..

lemma upper_PART: "upper ''PART'' = ''PART''"
  by (simp add: upper_def upper_char_def)

text \<open>
  Claim C7. For every mode string, \<open>cut\<close> writes a message of exactly six newline bytes
  and then exactly one cut command: the partial cut if the mode equals \<open>PART\<close> up to the
  case of its letters, the full cut for every other string. No exception is raised.
\<close>

theorem cut_newlines_then_command:
  "cut_op c mode p =
     (None, p\<lparr>sent := sent p @
        [replicate 6 LF,
         if case_insensitive_eq mode ''PART'' then PAPER_PART_CUT c else PAPER_FULL_CUT c]\<rparr>)"
proof -
  have six: "[LF, LF, LF, LF, LF, LF] = replicate 6 LF"
    by (simp add: numeral_eq_Suc)
  have test: "(upper mode = ''PART'') = case_insensitive_eq mode ''PART''"
    using upper_eq_iff [of mode "''PART''"] by (simp add: upper_PART)
  show ?thesis
    unfolding cut_op_def then_do_raw six test by (simp add: raw_def)
qed

theorem cut_newlines_then_command_examples:
  "cut_op escpos ''PART'' demo_printer =
     (None, demo_printer\<lparr>sent := [replicate 6 LF, PAPER_PART_CUT escpos]\<rparr>) \<and>
   cut_op escpos ''part'' demo_printer =
     (None, demo_printer\<lparr>sent := [replicate 6 LF, PAPER_PART_CUT escpos]\<rparr>) \<and>
   cut_op escpos ''full'' demo_printer =
     (None, demo_printer\<lparr>sent := [replicate 6 LF, PAPER_FULL_CUT escpos]\<rparr>) \<and>
   cut_op escpos ''xyz'' demo_printer =
     (None, demo_printer\<lparr>sent := [replicate 6 LF, PAPER_FULL_CUT escpos]\<rparr>) \<and>
   cut_op escpos [] demo_printer =
     (None, demo_printer\<lparr>sent := [replicate 6 LF, PAPER_FULL_CUT escpos]\<rparr>)"
proof -
  have 1: "case_insensitive_eq ''PART'' ''PART''" by code_simp
  have 2: "case_insensitive_eq ''part'' ''PART''" by code_simp
  have 3: "\<not> case_insensitive_eq ''full'' ''PART''" by code_simp
  have 4: "\<not> case_insensitive_eq ''xyz'' ''PART''" by code_simp
  have 5: "\<not> case_insensitive_eq [] ''PART''" by code_simp
  have nothing_sent: "sent demo_printer = []" by (simp add: demo_printer_def)
  show ?thesis
    unfolding cut_newlines_then_command by (simp add: 1 2 3 4 5 nothing_sent)
qed

subsection \<open>Status\<close>

text \<open>
  Claim C3. For every status response: \<open>is_online\<close> returns false when the response is
  empty, and for a response that is not empty it returns true if and only if the first
  byte has no bit of the online mask set.
\<close>

theorem is_online_from_response:
  assumes "query_status (RT_STATUS_ONLINE c) p = (status, p')"
  shows "(status = [] \<longrightarrow> is_online c p = (False, p')) \<and>
         (\<forall>b rest. status = b # rest \<longrightarrow>
            is_online c p = (uint b AND RT_MASK_ONLINE c = 0, p'))"
  using assms by (auto simp add: is_online_def)

theorem is_online_from_response_witness:
  "is_online escpos demo_printer = (False, demo_printer\<lparr>sent := [[DLE, EOT, 0x01]]\<rparr>) \<and>
   is_online escpos (demo_printer\<lparr>inbox := [0x12]\<rparr>) = (True, demo_printer\<lparr>sent := [[DLE, EOT, 0x01]]\<rparr>) \<and>
   is_online escpos (demo_printer\<lparr>inbox := [0x1A]\<rparr>) = (False, demo_printer\<lparr>sent := [[DLE, EOT, 0x01]]\<rparr>)"
proof -
  have q0: "query_status (RT_STATUS_ONLINE escpos) demo_printer =
      ([], demo_printer\<lparr>sent := [[DLE, EOT, 0x01]]\<rparr>)"
    by (simp add: query_status_def read_def raw_def escpos_def demo_printer_def)
  have q1: "query_status (RT_STATUS_ONLINE escpos) (demo_printer\<lparr>inbox := [0x12]\<rparr>) =
      ([0x12], demo_printer\<lparr>sent := [[DLE, EOT, 0x01]]\<rparr>)"
    by (simp add: query_status_def read_def raw_def escpos_def demo_printer_def)
  have q2: "query_status (RT_STATUS_ONLINE escpos) (demo_printer\<lparr>inbox := [0x1A]\<rparr>) =
      ([0x1A], demo_printer\<lparr>sent := [[DLE, EOT, 0x01]]\<rparr>)"
    by (simp add: query_status_def read_def raw_def escpos_def demo_printer_def)
  have m: "RT_MASK_ONLINE escpos = 8" by (simp add: escpos_def)
  show ?thesis
    using is_online_from_response [OF q0] is_online_from_response [OF q1]
      is_online_from_response [OF q2]
    by (simp add: m)
qed

text \<open>
  Claim C2. For every status response: \<open>paper_status\<close> returns 2 when the response is
  empty; for a response that is not empty it tests the first byte against the no-paper
  mask, then the low-paper mask, then the paper mask, and returns 0, 1 or 2 for the first
  that matches; when none matches it returns no value (Python's \<open>None\<close>).
\<close>

theorem paper_status_from_response:
  assumes "query_status (RT_STATUS_PAPER c) p = (status, p')"
  shows "(status = [] \<longrightarrow> paper_status c p = (Some 2, p')) \<and>
         (\<forall>b rest. status = b # rest \<longrightarrow>
            (uint b AND RT_MASK_NOPAPER c = RT_MASK_NOPAPER c \<longrightarrow>
               paper_status c p = (Some 0, p')) \<and>
            (uint b AND RT_MASK_NOPAPER c \<noteq> RT_MASK_NOPAPER c \<and>
             uint b AND RT_MASK_LOWPAPER c = RT_MASK_LOWPAPER c \<longrightarrow>
               paper_status c p = (Some 1, p')) \<and>
            (uint b AND RT_MASK_NOPAPER c \<noteq> RT_MASK_NOPAPER c \<and>
             uint b AND RT_MASK_LOWPAPER c \<noteq> RT_MASK_LOWPAPER c \<and>
             uint b AND RT_MASK_PAPER c = RT_MASK_PAPER c \<longrightarrow>
               paper_status c p = (Some 2, p')) \<and>
            (uint b AND RT_MASK_NOPAPER c \<noteq> RT_MASK_NOPAPER c \<and>
             uint b AND RT_MASK_LOWPAPER c \<noteq> RT_MASK_LOWPAPER c \<and>
             uint b AND RT_MASK_PAPER c \<noteq> RT_MASK_PAPER c \<longrightarrow>
               paper_status c p = (None, p')))"
  using assms by (auto simp add: paper_status_def)

lemma query_status_one_byte:
  "query_status m (demo_printer\<lparr>inbox := [b]\<rparr>) = ([b], demo_printer\<lparr>sent := [m]\<rparr>)"
  by (simp add: query_status_def read_def raw_def demo_printer_def)

lemma query_status_no_byte:
  "query_status m demo_printer = ([], demo_printer\<lparr>sent := [m]\<rparr>)"
  by (simp add: query_status_def read_def raw_def demo_printer_def)

theorem paper_status_from_response_witness:
  "paper_status escpos demo_printer = (Some 2, demo_printer\<lparr>sent := [[DLE, EOT, 0x04]]\<rparr>) \<and>
   paper_status escpos (demo_printer\<lparr>inbox := [0x72]\<rparr>) = (Some 0, demo_printer\<lparr>sent := [[DLE, EOT, 0x04]]\<rparr>) \<and>
   paper_status escpos (demo_printer\<lparr>inbox := [0x1E]\<rparr>) = (Some 1, demo_printer\<lparr>sent := [[DLE, EOT, 0x04]]\<rparr>) \<and>
   paper_status escpos (demo_printer\<lparr>inbox := [0x12]\<rparr>) = (Some 2, demo_printer\<lparr>sent := [[DLE, EOT, 0x04]]\<rparr>) \<and>
   paper_status escpos (demo_printer\<lparr>inbox := [0x00]\<rparr>) = (None, demo_printer\<lparr>sent := [[DLE, EOT, 0x04]]\<rparr>)"
proof -
  have sel: "RT_STATUS_PAPER escpos = [DLE, EOT, 0x04]"
    and masks: "RT_MASK_NOPAPER escpos = 114" "RT_MASK_LOWPAPER escpos = 30"
      "RT_MASK_PAPER escpos = 18"
    by (simp_all add: escpos_def)
  show ?thesis
    using paper_status_from_response [OF query_status_no_byte, where c = escpos]
      paper_status_from_response [OF query_status_one_byte [where b = "0x72"], where c = escpos]
      paper_status_from_response [OF query_status_one_byte [where b = "0x1E"], where c = escpos]
      paper_status_from_response [OF query_status_one_byte [where b = "0x12"], where c = escpos]
      paper_status_from_response [OF query_status_one_byte [where b = "0x00"], where c = escpos]
    unfolding sel masks by simp
qed

subsection \<open>The size block of \<open>set\<close>\<close>

text \<open>
  Claim C5. For every combination of \<open>double_width\<close> and \<open>double_height\<close>, \<open>set\<close> without
  \<open>custom_size\<close> first sends the normal-size reset and then exactly one size-mode command,
  chosen by the precedence both-double, width-double, height-double, normal. The four
  modes are taken to be keys of the size table.
\<close>

theorem set_size_modes:
  assumes "\<not> custom_size a"
    and "{''normal'', ''2h'', ''2w'', ''2x''} \<subseteq> dom (style_size c)"
  shows "\<exists>mode rest.
           style_size c
             (if double_width a \<and> double_height a then ''2x''
              else if double_width a then ''2w''
              else if double_height a then ''2h''
              else ''normal'') = Some mode \<and>
           set_size c a p = (None, p\<lparr>sent := sent p @ [TXT_NORMAL c, mode]\<rparr>) \<and>
           sent (snd (set_op c a p)) = sent p @ [TXT_NORMAL c, mode] @ rest"
proof -
  let ?key = "if double_width a \<and> double_height a then ''2x''
              else if double_width a then ''2w''
              else if double_height a then ''2h''
              else ''normal''"
  from assms(2) have "?key \<in> dom (style_size c)" by auto
  then obtain mode where mode: "style_size c ?key = Some mode" by blast
  have lookup: "raw_lookup (style_size c) ?key = raw mode"
    by (rule ext) (simp only: raw_lookup_def mode option.case)
  have "set_size c a p = then_do (raw (TXT_NORMAL c)) (raw_lookup (style_size c) ?key) p"
    using assms(1) by (simp add: set_size_def)
  then have size: "set_size c a p = (None, p\<lparr>sent := sent p @ [TXT_NORMAL c, mode]\<rparr>)"
    by (simp only: lookup then_do_raw) (simp add: raw_def)
  from set_op_after_size(2) [OF size]
  obtain rest where "sent (snd (set_op c a p)) = sent p @ [TXT_NORMAL c, mode] @ rest"
    by auto
  with mode size show ?thesis by blast
qed

lemma escpos_size_keys: "{''normal'', ''2h'', ''2w'', ''2x''} \<subseteq> dom (style_size escpos)"
  by (simp add: escpos_def)

theorem set_size_modes_witness:
  "\<exists>rest. set_size escpos (set_defaults\<lparr>double_width := True\<rparr>) demo_printer =
      (None, demo_printer\<lparr>sent := [[ESC, 0x21, 0x00], [ESC, 0x21, 0x00, ESC, 0x21, 0x20]]\<rparr>) \<and>
     sent (snd (set_op escpos (set_defaults\<lparr>double_width := True\<rparr>) demo_printer)) =
       [[ESC, 0x21, 0x00], [ESC, 0x21, 0x00, ESC, 0x21, 0x20]] @ rest"
proof -
  have nc: "\<not> custom_size (set_defaults\<lparr>double_width := True\<rparr>)"
    by (simp add: set_defaults_def)
  show ?thesis
    using set_size_modes [OF nc escpos_size_keys, of demo_printer]
    by (auto simp add: set_defaults_def escpos_def demo_printer_def)
qed

lemma multiplier_cases:
  assumes "1 \<le> (w::int)" and "w \<le> 8"
  shows "w = 1 \<or> w = 2 \<or> w = 3 \<or> w = 4 \<or> w = 5 \<or> w = 6 \<or> w = 7 \<or> w = 8"
  using assms by arith

lemma size_guard_ints:
  "size_guard (PyInt w) (PyInt h) = Inr (1 \<le> w \<and> w \<le> 8 \<and> 1 \<le> h \<and> h \<le> 8)"
  by (cases "1 \<le> w"; cases "w \<le> 8"; cases "1 \<le> h"; cases "h \<le> 8")
     (simp_all add: size_guard_def between_def and_then_def)

lemma nibbles_add_is_or:
  assumes "1 \<le> (w::int)" "w \<le> 8" "1 \<le> (h::int)" "h \<le> 8"
  shows "16 * (w - 1) + (h - 1) = (16 * (w - 1)) OR (h - 1)"
  using multiplier_cases [OF assms(1,2)] multiplier_cases [OF assms(3,4)]
  by (elim disjE) simp_all

lemma size_byte_nibbles:
  assumes "1 \<le> (w::int)" "w \<le> 8" "1 \<le> (h::int)" "h \<le> 8"
  shows "(word_of_int ((16 * (w - 1)) OR (h - 1)) :: byte) AND 0xF0 = word_of_int (16 * (w - 1))"
    and "(word_of_int ((16 * (w - 1)) OR (h - 1)) :: byte) AND 0x0F = word_of_int (h - 1)"
  using multiplier_cases [OF assms(1,2)] multiplier_cases [OF assms(3,4)]
  by (elim disjE; simp)+

text \<open>
  Claim C1. For every width and height from 1 to 8, \<open>set\<close> with \<open>custom_size\<close> sends the
  size-select command followed by exactly one size byte, the OR of the width entry and
  the height entry of the size tables; the width entry is the high nibble of the byte
  and the height entry the low nibble. Width 1 and height 1 give the byte 0x00, width 8
  and height 8 the byte 0x77.
\<close>

theorem set_custom_size_byte:
  assumes "custom_size a" and "width a = PyInt w" and "height a = PyInt h"
    and "1 \<le> w" and "w \<le> 8" and "1 \<le> h" and "h \<le> 8"
    and "style_width c = TXT_STYLE_width" and "style_height c = TXT_STYLE_height"
  shows "\<exists>tw th b rest.
           style_width c w = Some tw \<and> style_height c h = Some th \<and>
           b = word_of_int (tw OR th) \<and>
           set_size c a p = (None, p\<lparr>sent := sent p @ [TXT_SIZE c @ [b]]\<rparr>) \<and>
           sent (snd (set_op c a p)) = sent p @ [TXT_SIZE c @ [b]] @ rest \<and>
           b AND 0xF0 = word_of_int tw \<and> b AND 0x0F = word_of_int th \<and>
           (w = 1 \<and> h = 1 \<longrightarrow> b = 0x00) \<and> (w = 8 \<and> h = 8 \<longrightarrow> b = 0x77)"
proof -
  let ?tw = "16 * (w - 1)" and ?th = "h - 1"
  let ?b = "word_of_int (?tw OR ?th) :: byte"
  have tw: "style_width c w = Some ?tw" and th: "style_height c h = Some ?th"
    using assms by (simp_all add: TXT_STYLE_width_def TXT_STYLE_height_def)
  have guard: "size_guard (width a) (height a) = Inr True"
    using assms by (simp add: size_guard_ints)
  have range: "0 \<le> ?tw + ?th \<and> ?tw + ?th \<le> 255"
    using assms by simp
  have sum: "?tw + ?th = ?tw OR ?th"
    using assms by (simp only: nibbles_add_is_or)
  have byte: "int2byte (?tw + ?th) = Inr [?b]"
    using range by (simp only: int2byte_def sum) simp
  have "custom_size_command c (PyInt w) (PyInt h) p = raw (TXT_SIZE c @ [?b]) p"
    by (simp only: custom_size_command_def int_key.simps Option.bind.simps tw th byte
        option.case sum.case)
  then have size: "set_size c a p = (None, p\<lparr>sent := sent p @ [TXT_SIZE c @ [?b]]\<rparr>)"
    using assms(1,2,3) guard by (simp add: set_size_def raw_def)
  from set_op_after_size(2) [OF size]
  obtain rest where rest: "sent (snd (set_op c a p)) = sent p @ [TXT_SIZE c @ [?b]] @ rest"
    by auto
  have hi: "?b AND 0xF0 = word_of_int ?tw" and lo: "?b AND 0x0F = word_of_int ?th"
    using assms by (simp_all only: size_byte_nibbles)
  have r1: "w = 1 \<and> h = 1 \<longrightarrow> ?b = 0x00" by simp
  have r8: "w = 8 \<and> h = 8 \<longrightarrow> ?b = 0x77" by simp
  show ?thesis
    apply (rule exI [of _ ?tw], rule exI [of _ ?th], rule exI [of _ ?b], rule exI [of _ rest])
    apply (intro conjI)
    apply (rule tw th refl size rest hi lo r1 r8)+
    done
qed


theorem set_custom_size_byte_witness:
  "set_size escpos (set_defaults\<lparr>custom_size := True\<rparr>) demo_printer =
     (None, demo_printer\<lparr>sent := [[GS, 0x21, 0x00]]\<rparr>) \<and>
   set_size escpos (set_defaults\<lparr>custom_size := True, width := PyInt 8, height := PyInt 8\<rparr>)
       demo_printer =
     (None, demo_printer\<lparr>sent := [[GS, 0x21, 0x77]]\<rparr>)"
proof -
  let ?a1 = "set_defaults\<lparr>custom_size := True\<rparr>"
  let ?a8 = "set_defaults\<lparr>custom_size := True, width := PyInt 8, height := PyInt 8\<rparr>"
  have tabs: "style_width escpos = TXT_STYLE_width" "style_height escpos = TXT_STYLE_height"
    by (simp_all add: escpos_def)
  have a1: "custom_size ?a1" "width ?a1 = PyInt 1" "height ?a1 = PyInt 1"
    and a8: "custom_size ?a8" "width ?a8 = PyInt 8" "height ?a8 = PyInt 8"
    by (simp_all add: set_defaults_def)
  have sel: "TXT_SIZE escpos = [GS, 0x21]" "sent demo_printer = []"
    by (simp_all add: escpos_def demo_printer_def)
  from set_custom_size_byte [OF a1, of escpos demo_printer] tabs
  have one: "set_size escpos ?a1 demo_printer = (None, demo_printer\<lparr>sent := [[GS, 0x21, 0x00]]\<rparr>)"
    unfolding sel by auto
  from set_custom_size_byte [OF a8, of escpos demo_printer] tabs
  have eight: "set_size escpos ?a8 demo_printer = (None, demo_printer\<lparr>sent := [[GS, 0x21, 0x77]]\<rparr>)"
    unfolding sel by auto
  from one eight show ?thesis ..
qed

lemma between_number:
  assumes "is_number v"
  shows "\<exists>b. between 1 v 8 = Inr b"
  using assms by (cases v) (auto simp add: is_number_def between_def split: bool.splits)

lemma between_int:
  assumes "isinstance_int v"
  shows "between 1 v 8 = Inr (valid_multiplier v)"
  using assms
  by (cases v) (auto simp add: between_def valid_multiplier_def split: bool.splits)

lemma not_int_not_valid: "\<not> isinstance_int v \<Longrightarrow> \<not> valid_multiplier v"
  by (cases v) (simp_all add: valid_multiplier_def)

lemma size_guard_numbers:
  assumes "is_number w" and "is_number h"
  shows "size_guard w h = Inr (valid_multiplier w \<and> valid_multiplier h)"
proof -
  from between_number [OF assms(1)] obtain bw where bw: "between 1 w 8 = Inr bw" ..
  from between_number [OF assms(2)] obtain bh where bh: "between 1 h 8 = Inr bh" ..
  have w: "isinstance_int w \<Longrightarrow> bw = valid_multiplier w"
    using between_int [of w] bw by simp
  have h: "isinstance_int h \<Longrightarrow> bh = valid_multiplier h"
    using between_int [of h] bh by simp
  show ?thesis
    using w h not_int_not_valid [of w] not_int_not_valid [of h]
    by (cases bw; cases bh; cases "isinstance_int w"; cases "isinstance_int h")
       (simp_all add: size_guard_def and_then_def bw bh)
qed

text \<open>
  Claim C6, as amended. For every call of \<open>set\<close> with \<open>custom_size\<close> in which width and
  height are numbers (int, bool or float) and one of them lies outside 1 to 8 or is not
  an integer, the size block sends nothing and raises nothing, and the call goes on
  with the rest of \<open>set\<close>.
\<close>

theorem custom_size_skipped_for_numbers:
  assumes "custom_size a"
    and "is_number (width a)" and "is_number (height a)"
    and "\<not> (valid_multiplier (width a) \<and> valid_multiplier (height a))"
  shows "set_size c a p = (None, p) \<and> set_op c a p = set_style c a p"
proof -
  have "size_guard (width a) (height a) = Inr False"
    using assms(4) by (simp add: size_guard_numbers [OF assms(2,3)])
  then have size: "set_size c a p = (None, p)"
    using assms(1) by (simp add: set_size_def skip_def)
  from set_op_after_size(1) [OF size] size show ?thesis by simp
qed

theorem custom_size_skipped_for_numbers_witness:
  "set_size escpos (set_defaults\<lparr>custom_size := True, width := PyFloat (Finite (5 / 2))\<rparr>) demo_printer = (None, demo_printer) \<and>
   set_size escpos (set_defaults\<lparr>custom_size := True, width := PyInt 2, height := PyInt 9\<rparr>) demo_printer = (None, demo_printer) \<and>
   set_size escpos (set_defaults\<lparr>custom_size := True, width := PyInt 0\<rparr>) demo_printer = (None, demo_printer) \<and>
   set_op escpos (set_defaults\<lparr>custom_size := True, width := PyInt 0\<rparr>) demo_printer =
     set_style escpos (set_defaults\<lparr>custom_size := True, width := PyInt 0\<rparr>) demo_printer"
  using
    custom_size_skipped_for_numbers [of "set_defaults\<lparr>custom_size := True, width := PyFloat (Finite (5 / 2))\<rparr>" escpos demo_printer]
    custom_size_skipped_for_numbers [of "set_defaults\<lparr>custom_size := True, width := PyInt 2, height := PyInt 9\<rparr>" escpos demo_printer]
    custom_size_skipped_for_numbers [of "set_defaults\<lparr>custom_size := True, width := PyInt 0\<rparr>" escpos demo_printer]
  by (simp add: set_defaults_def is_number_def valid_multiplier_def)

text \<open>
  Claim C6 as it was stated covers every width that is not an integer. A width that is a
  string is not an integer, and there the range test \<open>1 <= width\<close> raises TypeError:
  nothing is sent and the call ends with the exception.
\<close>

theorem custom_size_string_raises:
  "custom_size (set_defaults\<lparr>custom_size := True, width := PyStr ''2''\<rparr>) \<and>
   \<not> valid_multiplier (width (set_defaults\<lparr>custom_size := True, width := PyStr ''2''\<rparr>)) \<and>
   set_size escpos (set_defaults\<lparr>custom_size := True, width := PyStr ''2''\<rparr>) demo_printer =
     (Some TypeError, demo_printer) \<and>
   set_op escpos (set_defaults\<lparr>custom_size := True, width := PyStr ''2''\<rparr>) demo_printer =
     (Some TypeError, demo_printer)"
  by (simp add: set_defaults_def valid_multiplier_def set_op_def then_do_def set_size_def
      size_guard_def between_def and_then_def raise_def)

subsection \<open>The rest of \<open>set\<close>\<close>

lemma set_size_font: "set_size c (a\<lparr>font := f\<rparr>) = set_size c a"
  by (simp add: set_size_def split: sum.splits bool.splits)

lemma set_style_font: "set_style c (a\<lparr>font := f\<rparr>) = set_style c a"
  by (simp add: set_style_def)

lemma set_size_defaults:
  assumes "\<not> custom_size a" and "\<not> double_width a" and "\<not> double_height a"
  shows "set_size escpos a demo_printer =
    (None, demo_printer\<lparr>sent := [[ESC, 0x21, 0x00], [ESC, 0x21, 0x00, ESC, 0x21, 0x00]]\<rparr>)"
  using assms
  by (simp add: set_size_def then_do_def raw_def raw_lookup_def escpos_def demo_printer_def)

lemma run_steps_result:
  "run_steps ms p =
     (if None \<in> set ms then Some KeyError else None,
      p\<lparr>sent := sent p @ map the (takeWhile (\<lambda>m. m \<noteq> None) ms)\<rparr>)"
  by (induction ms p rule: run_steps.induct) simp_all

lemma then_do_run_steps: "then_do (run_steps xs) (run_steps ys) p = run_steps (xs @ ys) p"
proof (induction xs p rule: run_steps.induct)
  case (1 p)
  show ?case by (simp add: then_do_def)
next
  case (2 ms p)
  show ?case by (simp add: then_do_def)
next
  case (3 m ms p)
  then show ?case by (simp add: then_do_def)
qed

lemma raw_lookup_step: "raw_lookup tab k = run_steps [tab k]"
  by (rule ext) (cases "tab k"; simp add: raw_lookup_def raw_def)

lemma set_font_one_step: "set_font_one c = run_steps [Some (SET_FONT c [1])]"
  by (rule ext) (simp add: set_font_one_eq)

lemma skip_step: "skip = run_steps []"
  by (rule ext) (simp add: skip_def)

lemma then_do_run_steps_fun: "then_do (run_steps xs) (run_steps ys) = run_steps (xs @ ys)"
  by (rule ext) (rule then_do_run_steps)

lemma set_style_steps: "set_style c a = run_steps (claimed_order c a)"
proof (cases "density a \<noteq> 9")
  case True
  then show ?thesis
    by (simp add: set_style_def claimed_order_def raw_lookup_step set_font_one_step
        then_do_run_steps_fun)
next
  case False
  then show ?thesis
    by (simp add: set_style_def claimed_order_def raw_lookup_step set_font_one_step
        skip_step then_do_run_steps_fun)
qed

lemma set_op_steps:
  "set_op c a p =
     (case set_size c a p of
        (Some e, p1) \<Rightarrow> (Some e, p1)
      | (None, p1) \<Rightarrow>
          (if None \<in> set (claimed_order c a) then Some KeyError else None,
           p1\<lparr>sent := sent p1 @
             map the (takeWhile (\<lambda>m. m \<noteq> None) (claimed_order c a))\<rparr>))"
  by (simp add: set_op_def then_do_def set_style_steps run_steps_result
      split: prod.splits option.splits)

text \<open>
  Claim C4, as amended. For every call of \<open>set\<close> whose density is 9 or a key of the
  density table: if the size block raises, the call ends there; otherwise the commands
  are sent after the size block in the fixed order flip, smoothing, bold, underline,
  font-select, alignment, then density, then invert last, up to the first of them whose
  table has no entry for the argument, where the call raises KeyError and sends nothing
  more. When every table has its entry all of them are sent and nothing is raised. The
  font-select command is the one for font index 1 whatever the \<open>font\<close> argument is, and
  the density command is in the sequence if and only if \<open>density\<close> is not 9.
\<close>

theorem set_style_order:
  assumes "density a = 9 \<or> density a \<in> dom (style_density c)"
  shows "set_op c a p =
           (case set_size c a p of
              (Some e, p1) \<Rightarrow> (Some e, p1)
            | (None, p1) \<Rightarrow>
                (if None \<in> set (claimed_order c a) then Some KeyError else None,
                 p1\<lparr>sent := sent p1 @
                   map the (takeWhile (\<lambda>m. m \<noteq> None) (claimed_order c a))\<rparr>)) \<and>
         (\<forall>p1. set_size c a p = (None, p1) \<and> None \<notin> set (claimed_order c a) \<longrightarrow>
            set_op c a p = (None, p1\<lparr>sent := sent p1 @ map the (claimed_order c a)\<rparr>)) \<and>
         (\<forall>f. set_op c (a\<lparr>font := f\<rparr>) p = set_op c a p)"
proof (intro conjI)
  show "set_op c a p =
      (case set_size c a p of
         (Some e, p1) \<Rightarrow> (Some e, p1)
       | (None, p1) \<Rightarrow>
           (if None \<in> set (claimed_order c a) then Some KeyError else None,
            p1\<lparr>sent := sent p1 @
              map the (takeWhile (\<lambda>m. m \<noteq> None) (claimed_order c a))\<rparr>))"
    by (rule set_op_steps)
  show "\<forall>p1. set_size c a p = (None, p1) \<and> None \<notin> set (claimed_order c a) \<longrightarrow>
      set_op c a p = (None, p1\<lparr>sent := sent p1 @ map the (claimed_order c a)\<rparr>)"
  proof (intro allI impI)
    fix p1
    assume h: "set_size c a p = (None, p1) \<and> None \<notin> set (claimed_order c a)"
    have "\<forall>m \<in> set (claimed_order c a). m \<noteq> None"
    proof (intro ballI notI)
      fix m
      assume "m \<in> set (claimed_order c a)" and "m = None"
      with h show False by simp
    qed
    then have all: "takeWhile (\<lambda>m. m \<noteq> None) (claimed_order c a) = claimed_order c a"
      by (simp only: takeWhile_eq_all_conv)
    from h have size: "set_size c a p = (None, p1)"
      and found: "None \<notin> set (claimed_order c a)"
      by simp_all
    show "set_op c a p = (None, p1\<lparr>sent := sent p1 @ map the (claimed_order c a)\<rparr>)"
      by (simp only: set_op_steps size all found prod.case option.case if_False)
  qed
  show "\<forall>f. set_op c (a\<lparr>font := f\<rparr>) p = set_op c a p"
    by (simp add: set_op_def set_style_font set_size_font)
qed

lemma escpos_steps_defaults:
  assumes "flip a = False" and "smooth a = False" and "underline a = 0" and "invert a = False"
  shows "claimed_order escpos a =
    [Some [ESC, 0x7B, 0x00], Some [GS, 0x62, 0x00],
     Some (if bold a then [ESC, 0x45, 0x01] else [ESC, 0x45, 0x00]),
     Some [ESC, 0x2D, 0x00], Some [ESC, 0x4D, 0x01], style_align escpos (align a)] @
    (if density a \<noteq> 9 then [style_density escpos (density a)] else []) @
    [Some [GS, 0x42, 0x00]]"
  using assms by (simp add: claimed_order_def escpos_def on_off_def)

theorem set_style_order_witness:
  "set_op escpos (set_defaults\<lparr>align := ''center'', bold := True, density := 4\<rparr>) demo_printer =
     (None, demo_printer\<lparr>sent :=
        [[ESC, 0x21, 0x00], [ESC, 0x21, 0x00, ESC, 0x21, 0x00],
         [ESC, 0x7B, 0x00], [GS, 0x62, 0x00], [ESC, 0x45, 0x01], [ESC, 0x2D, 0x00],
         [ESC, 0x4D, 0x01], [ESC, 0x61, 0x01], [GS, 0x7C, 0x04], [GS, 0x42, 0x00]]\<rparr>) \<and>
   set_op escpos (set_defaults\<lparr>font := ''b''\<rparr>) demo_printer =
     (None, demo_printer\<lparr>sent :=
        [[ESC, 0x21, 0x00], [ESC, 0x21, 0x00, ESC, 0x21, 0x00],
         [ESC, 0x7B, 0x00], [GS, 0x62, 0x00], [ESC, 0x45, 0x00], [ESC, 0x2D, 0x00],
         [ESC, 0x4D, 0x01], [ESC, 0x61, 0x00], [GS, 0x42, 0x00]]\<rparr>) \<and>
   set_op escpos (set_defaults\<lparr>align := ''middle''\<rparr>) demo_printer =
     (Some KeyError, demo_printer\<lparr>sent :=
        [[ESC, 0x21, 0x00], [ESC, 0x21, 0x00, ESC, 0x21, 0x00],
         [ESC, 0x7B, 0x00], [GS, 0x62, 0x00], [ESC, 0x45, 0x00], [ESC, 0x2D, 0x00],
         [ESC, 0x4D, 0x01]]\<rparr>)"
proof -
  let ?a = "set_defaults\<lparr>align := ''center'', bold := True, density := 4\<rparr>"
  let ?b = "set_defaults\<lparr>font := ''b''\<rparr>"
  let ?m = "set_defaults\<lparr>align := ''middle''\<rparr>"
  have da: "density ?a = 9 \<or> density ?a \<in> dom (style_density escpos)"
    and db: "density ?b = 9 \<or> density ?b \<in> dom (style_density escpos)"
    and dm: "density ?m = 9 \<or> density ?m \<in> dom (style_density escpos)"
    by (simp_all add: set_defaults_def escpos_def domIff)
  have sa: "set_size escpos ?a demo_printer =
      (None, demo_printer\<lparr>sent := [[ESC, 0x21, 0x00], [ESC, 0x21, 0x00, ESC, 0x21, 0x00]]\<rparr>)"
    and sb: "set_size escpos ?b demo_printer =
      (None, demo_printer\<lparr>sent := [[ESC, 0x21, 0x00], [ESC, 0x21, 0x00, ESC, 0x21, 0x00]]\<rparr>)"
    and sm: "set_size escpos ?m demo_printer =
      (None, demo_printer\<lparr>sent := [[ESC, 0x21, 0x00], [ESC, 0x21, 0x00, ESC, 0x21, 0x00]]\<rparr>)"
    by (rule set_size_defaults; simp add: set_defaults_def)+
  have oa: "claimed_order escpos ?a =
      [Some [ESC, 0x7B, 0x00], Some [GS, 0x62, 0x00], Some [ESC, 0x45, 0x01],
       Some [ESC, 0x2D, 0x00], Some [ESC, 0x4D, 0x01], Some [ESC, 0x61, 0x01],
       Some [GS, 0x7C, 0x04], Some [GS, 0x42, 0x00]]"
    by (subst escpos_steps_defaults) (simp_all add: set_defaults_def escpos_def)
  have ob: "claimed_order escpos ?b =
      [Some [ESC, 0x7B, 0x00], Some [GS, 0x62, 0x00], Some [ESC, 0x45, 0x00],
       Some [ESC, 0x2D, 0x00], Some [ESC, 0x4D, 0x01], Some [ESC, 0x61, 0x00],
       Some [GS, 0x42, 0x00]]"
    by (subst escpos_steps_defaults) (simp_all add: set_defaults_def escpos_def)
  have om: "claimed_order escpos ?m =
      [Some [ESC, 0x7B, 0x00], Some [GS, 0x62, 0x00], Some [ESC, 0x45, 0x00],
       Some [ESC, 0x2D, 0x00], Some [ESC, 0x4D, 0x01], None, Some [GS, 0x42, 0x00]]"
    by (subst escpos_steps_defaults) (simp_all add: set_defaults_def escpos_def)
  show ?thesis
    using set_style_order [OF da, of demo_printer] set_style_order [OF db, of demo_printer]
      set_style_order [OF dm, of demo_printer]
    unfolding sa sb sm oa ob om by (simp add: demo_printer_def)
qed

text \<open>
  Claim C4 as it was stated covers every call. With an alignment that is not a key of its
  table the call raises KeyError after the font-select command: neither the alignment
  nor the invert command is sent. With density 10, which is not 9, the call raises
  KeyError after the alignment command: no density command and no invert command is
  sent.
\<close>

theorem set_order_cut_short:
  "set_op escpos (set_defaults\<lparr>align := ''middle''\<rparr>) demo_printer =
     (Some KeyError, demo_printer\<lparr>sent :=
        [[ESC, 0x21, 0x00], [ESC, 0x21, 0x00, ESC, 0x21, 0x00],
         [ESC, 0x7B, 0x00], [GS, 0x62, 0x00], [ESC, 0x45, 0x00], [ESC, 0x2D, 0x00],
         [ESC, 0x4D, 0x01]]\<rparr>) \<and>
   density (set_defaults\<lparr>density := 10\<rparr>) \<noteq> 9 \<and>
   set_op escpos (set_defaults\<lparr>density := 10\<rparr>) demo_printer =
     (Some KeyError, demo_printer\<lparr>sent :=
        [[ESC, 0x21, 0x00], [ESC, 0x21, 0x00, ESC, 0x21, 0x00],
         [ESC, 0x7B, 0x00], [GS, 0x62, 0x00], [ESC, 0x45, 0x00], [ESC, 0x2D, 0x00],
         [ESC, 0x4D, 0x01], [ESC, 0x61, 0x00]]\<rparr>)"
proof -
  let ?m = "set_defaults\<lparr>align := ''middle''\<rparr>"
  let ?d = "set_defaults\<lparr>density := 10\<rparr>"
  have sm: "set_size escpos ?m demo_printer =
      (None, demo_printer\<lparr>sent := [[ESC, 0x21, 0x00], [ESC, 0x21, 0x00, ESC, 0x21, 0x00]]\<rparr>)"
    and sd: "set_size escpos ?d demo_printer =
      (None, demo_printer\<lparr>sent := [[ESC, 0x21, 0x00], [ESC, 0x21, 0x00, ESC, 0x21, 0x00]]\<rparr>)"
    by (rule set_size_defaults; simp add: set_defaults_def)+
  have om: "claimed_order escpos ?m =
      [Some [ESC, 0x7B, 0x00], Some [GS, 0x62, 0x00], Some [ESC, 0x45, 0x00],
       Some [ESC, 0x2D, 0x00], Some [ESC, 0x4D, 0x01], None, Some [GS, 0x42, 0x00]]"
    by (subst escpos_steps_defaults) (simp_all add: set_defaults_def escpos_def)
  have od: "claimed_order escpos ?d =
      [Some [ESC, 0x7B, 0x00], Some [GS, 0x62, 0x00], Some [ESC, 0x45, 0x00],
       Some [ESC, 0x2D, 0x00], Some [ESC, 0x4D, 0x01], Some [ESC, 0x61, 0x00], None,
       Some [GS, 0x42, 0x00]]"
    by (subst escpos_steps_defaults) (simp_all add: set_defaults_def escpos_def)
  have ten: "density ?d \<noteq> 9" by (simp add: set_defaults_def)
  show ?thesis
    unfolding set_op_steps sm sd om od using ten by (simp add: demo_printer_def)
qed

text \<open>
  Claim C10, as amended. For every call of \<open>set\<close> with an \<open>align\<close> outside left, center and
  right, or an \<open>underline\<close> outside 0, 1 and 2 (the keys of the two tables), lines 137 to
  147 raise KeyError, a lookup error, instead of falling back to a default. The whole
  call raises that KeyError when the size block has raised nothing; when the size block
  raises, its exception ends the call.
\<close>

theorem set_lookup_error:
  assumes "dom (style_align c) = {''left'', ''center'', ''right''}"
    and "dom (style_underline c) = {0, 1, 2}"
    and "align a \<notin> {''left'', ''center'', ''right''} \<or> underline a \<notin> {0, 1, 2}"
  shows "fst (set_style c a p) = Some KeyError \<and>
         fst (set_op c a p) =
           (case fst (set_size c a p) of None \<Rightarrow> Some KeyError | Some e \<Rightarrow> Some e)"
proof -
  have missing: "style_underline c (underline a) = None \<or> style_align c (align a) = None"
    using assms by (metis domIff)
  have style: "fst (set_style c a q) = Some KeyError" for q
    using missing unfolding set_style_def
    by (auto simp add: then_do_def raw_lookup_def raw_def set_font_one_eq skip_def
        split: option.splits)
  obtain e p1 where size: "set_size c a p = (e, p1)" by (cases "set_size c a p")
  have "fst (set_op c a p) = (case e of None \<Rightarrow> Some KeyError | Some e \<Rightarrow> Some e)"
    using style [of p1] by (cases e) (simp_all add: set_op_def then_do_def size)
  with style [of p] size show ?thesis by simp
qed

lemma escpos_align_keys: "dom (style_align escpos) = {''left'', ''center'', ''right''}"
  by (auto simp add: escpos_def split: if_splits)

lemma escpos_underline_keys: "dom (style_underline escpos) = {0, 1, 2}"
  by (auto simp add: escpos_def split: if_splits)

theorem set_lookup_error_witness:
  "fst (set_op escpos (set_defaults\<lparr>align := ''middle''\<rparr>) demo_printer) = Some KeyError \<and>
   fst (set_op escpos (set_defaults\<lparr>underline := 3\<rparr>) demo_printer) = Some KeyError"
proof -
  have a: "align (set_defaults\<lparr>align := ''middle''\<rparr>) \<notin> {''left'', ''center'', ''right''} \<or>
      underline (set_defaults\<lparr>align := ''middle''\<rparr>) \<notin> {0, 1, 2}"
    by (simp add: set_defaults_def)
  have u: "align (set_defaults\<lparr>underline := 3\<rparr>) \<notin> {''left'', ''center'', ''right''} \<or>
      underline (set_defaults\<lparr>underline := 3\<rparr>) \<notin> {0, 1, 2}"
    by (simp add: set_defaults_def)
  have sa: "fst (set_size escpos (set_defaults\<lparr>align := ''middle''\<rparr>) demo_printer) = None"
    by (simp add: set_size_defaults set_defaults_def)
  have su: "fst (set_size escpos (set_defaults\<lparr>underline := 3\<rparr>) demo_printer) = None"
    by (simp add: set_size_defaults set_defaults_def)
  show ?thesis
    using set_lookup_error [OF escpos_align_keys escpos_underline_keys a, of demo_printer]
      set_lookup_error [OF escpos_align_keys escpos_underline_keys u, of demo_printer]
    by (simp add: sa su)
qed

text \<open>
  Claim C10 as it was stated promises a lookup error for every such call. With a width
  that is a string and \<open>custom_size\<close>, the size block raises TypeError before the
  alignment is looked up, and TypeError is not a lookup error.
\<close>

theorem set_bad_align_after_bad_width:
  "align (set_defaults\<lparr>custom_size := True, width := PyStr ''2'', align := ''middle''\<rparr>)
     \<notin> {''left'', ''center'', ''right''} \<and>
   set_op escpos (set_defaults\<lparr>custom_size := True, width := PyStr ''2'', align := ''middle''\<rparr>)
       demo_printer =
     (Some TypeError, demo_printer) \<and>
   TypeError \<noteq> KeyError"
  by (simp add: set_defaults_def set_op_def then_do_def set_size_def
      size_guard_def between_def and_then_def raise_def)

end
